theory Spec2Isabelle
  imports Main
begin

section \<open>FolliCore ML API: the DINOv2 extractor and the service state\<close>

text \<open>
  The development embeds two source files: \<^verbatim>\<open>ml/api/inference/dinov2.py\<close> (class
  \<^verbatim>\<open>DINOv2Inference\<close>) and \<^verbatim>\<open>ml/api/server.py\<close> (\<^verbatim>\<open>AppState\<close>, \<^verbatim>\<open>load_models\<close>,
  \<^verbatim>\<open>unload_models\<close> and the health handlers).

  Python exceptions are values of the type \<open>error\<close>; a call that may raise returns
  \<open>error + 'x\<close>. Values that live inside PIL, numpy, torch and onnxruntime are opaque:
  \<open>'i\<close> is a PIL image, \<open>'a\<close> a numpy array, \<open>'m\<close> a torch module, \<open>'d\<close> a state dict,
  \<open>'s\<close> an onnxruntime session and \<open>'f\<close> a Python float. The library calls the source makes
  are the fields of the record \<open>libs\<close>; the file system is the field \<open>path_exists\<close>.
  A leading underscore of a Python name is written \<open>u_\<close>.
\<close>

subsection \<open>Exceptions\<close>

datatype error =
    RuntimeError string
  | ValueError string
  | TypeError string
  | AttributeError string
  | IndexError string
  | LibraryError string

subsection \<open>The libraries the extractor calls\<close>

record 'd checkpoint =
  model_state_dict :: "'d option"
  version :: "string option"

record 'a model_output =
  last_hidden_state :: "'a"
  attentions :: "'a list option"

record ('i, 'a, 'm, 'd, 's, 'f) libs =
  path_exists :: "string \<Rightarrow> bool"
  np_array :: "string list \<Rightarrow> 'a"
  Image_fromarray :: "'a \<Rightarrow> error + 'i"
  Image_convert :: "'i \<Rightarrow> string \<Rightarrow> error + 'i"
  Image_resize :: "'i \<Rightarrow> int \<times> int \<Rightarrow> error + 'i"
  np_array_float32 :: "'i \<Rightarrow> 'a"
  np_div_255 :: "'a \<Rightarrow> 'a"
  np_sub :: "'a \<Rightarrow> 'a \<Rightarrow> 'a"
  np_div :: "'a \<Rightarrow> 'a \<Rightarrow> 'a"
  np_transpose :: "'a \<Rightarrow> nat list \<Rightarrow> 'a"
  np_expand_dims :: "'a \<Rightarrow> nat \<Rightarrow> 'a"
  np_astype_float32 :: "'a \<Rightarrow> 'a"
  np_random_rand :: "int list \<Rightarrow> 'a"
  np_mean :: "'f list \<Rightarrow> 'f"
  np_min :: "'f list \<Rightarrow> 'f"
  np_max :: "'f list \<Rightarrow> 'f"
  measured_latency_ms :: "nat \<Rightarrow> 'f"
  cuda_is_available :: "bool"
  mps_is_available :: "bool"
  AutoModel_from_pretrained :: "string \<Rightarrow> error + 'm"
  module_to :: "'m \<Rightarrow> string \<Rightarrow> 'm"
  module_half :: "'m \<Rightarrow> 'm"
  torch_load :: "string \<Rightarrow> string \<Rightarrow> error + 'd checkpoint"
  load_state_dict :: "'m \<Rightarrow> 'd \<Rightarrow> error + 'm"
  hidden_size :: "'m \<Rightarrow> int"
  AutoImageProcessor_from_pretrained :: "string \<Rightarrow> error + unit"
  has_torch_compile :: "bool"
  torch_compile :: "'m \<Rightarrow> error + 'm"
  module_call :: "'m \<Rightarrow> 'a \<Rightarrow> bool \<Rightarrow> bool \<Rightarrow> error + 'a model_output"
  cls_token :: "'a \<Rightarrow> 'a"
  patch_tokens :: "'a \<Rightarrow> 'a"
  attention_of_batch0 :: "'a \<Rightarrow> 'a"
  get_available_providers :: "string list"
  InferenceSession :: "string \<Rightarrow> string list \<Rightarrow> error + 's"
  session_output_dim :: "'s \<Rightarrow> int option"
  session_run :: "'s \<Rightarrow> 'a \<Rightarrow> error + 'a list"
  batch0 :: "'a \<Rightarrow> 'a"

text \<open>
  \<open>module_call m tensor fp16 output_attentions\<close> is the forward pass
  \<^verbatim>\<open>self._model(tensor, output_attentions=return_attention)\<close> on the tensor moved to the
  device (and halved when \<open>fp16\<close>); \<open>attentions\<close> is \<open>None\<close> when the output has no
  such attribute or it is \<^verbatim>\<open>None\<close>. \<open>measured_latency_ms i\<close> is the value
  \<^verbatim>\<open>(time.time() - start) * 1000\<close> that iteration \<open>i\<close> of the warmup loop observes.
  \<open>session_output_dim s\<close> is \<^verbatim>\<open>outputs[0].shape[-1]\<close>, or \<open>None\<close> when the session
  has no outputs.
\<close>

subsection \<open>The extractor object\<close>

record ('a, 'm, 's) extractor =
  model_name :: string
  checkpoint_path :: "string option"
  onnx_path :: "string option"
  device :: string
  use_fp16 :: bool
  image_size :: int
  u_model :: "'m option"
  u_processor :: "unit option"
  u_ort_session :: "'s option"
  u_is_loaded :: bool
  u_device :: "string option"
  u_mean :: "'a"
  u_std :: "'a"
  model_version :: string
  embedding_dim :: int

text \<open>\<^verbatim>\<open>DINOv2Inference.__init__\<close>. \<open>u_device\<close> is \<open>None\<close> while the attribute
  \<^verbatim>\<open>_device\<close> does not exist (only \<^verbatim>\<open>_load_pytorch\<close> creates it).\<close>

definition init ::
  "('i, 'a, 'm, 'd, 's, 'f) libs \<Rightarrow> string \<Rightarrow> string option \<Rightarrow> string option \<Rightarrow> string \<Rightarrow> bool \<Rightarrow> int
     \<Rightarrow> ('a, 'm, 's) extractor" where
  "init L name ckpt onnx dev fp16 isz =
     \<lparr> model_name = name, checkpoint_path = ckpt, onnx_path = onnx, device = dev,
       use_fp16 = (fp16 \<and> dev = ''cuda''), image_size = isz,
       u_model = None, u_processor = None, u_ort_session = None, u_is_loaded = False,
       u_device = None,
       u_mean = np_array L [''0.485'', ''0.456'', ''0.406''],
       u_std = np_array L [''0.229'', ''0.224'', ''0.225''],
       model_version = ''unknown'', embedding_dim = 768 \<rparr>"

text \<open>Python truthiness of an \<^verbatim>\<open>Optional[str]\<close>: \<^verbatim>\<open>None\<close> and \<^verbatim>\<open>""\<close> are false.\<close>

fun truthy :: "string option \<Rightarrow> bool" where
  "truthy None = False"
| "truthy (Some s) = (s \<noteq> [])"

subsection \<open>Loading\<close>

text \<open>A loader mutates the object step by step and may raise in the middle: it returns
  the exception (if any) together with the object as the exception leaves it.\<close>

definition onnx_providers :: "('i, 'a, 'm, 'd, 's, 'f) libs \<Rightarrow> string \<Rightarrow> string list" where
  "onnx_providers L dev =
     (if dev = ''cuda''
      then (if ''TensorrtExecutionProvider'' \<in> set (get_available_providers L)
            then [''TensorrtExecutionProvider''] else [])
         @ (if ''CUDAExecutionProvider'' \<in> set (get_available_providers L)
            then [''CUDAExecutionProvider''] else [])
      else [])
     @ [''CPUExecutionProvider'']"

definition load_onnx ::
  "('i, 'a, 'm, 'd, 's, 'f) libs \<Rightarrow> ('a, 'm, 's) extractor \<Rightarrow> error option \<times> ('a, 'm, 's) extractor" where
  "load_onnx L ex =
     (case onnx_path ex of
        None \<Rightarrow> (Some (TypeError ''onnx_path is None''), ex)
      | Some p \<Rightarrow>
          (case InferenceSession L p (onnx_providers L (device ex)) of
             Inl e \<Rightarrow> (Some e, ex)
           | Inr s \<Rightarrow>
               (None, ex\<lparr> u_ort_session := Some s,
                         model_version := ''onnx'',
                         embedding_dim := (case session_output_dim L s of
                                             Some d \<Rightarrow> d | None \<Rightarrow> 768) \<rparr>)))"

definition torch_device :: "('i, 'a, 'm, 'd, 's, 'f) libs \<Rightarrow> string \<Rightarrow> string" where
  "torch_device L dev =
     (if dev = ''cuda'' \<and> cuda_is_available L then ''cuda''
      else if dev = ''mps'' \<and> mps_is_available L then ''mps''
      else ''cpu'')"

text \<open>The tail of \<^verbatim>\<open>_load_pytorch\<close>, after the checkpoint has been handled: embedding
  dimension, FP16, image processor, \<^verbatim>\<open>torch.compile\<close> (which fails soft).\<close>

definition load_pytorch_finish ::
  "('i, 'a, 'm, 'd, 's, 'f) libs \<Rightarrow> 'm \<Rightarrow> ('a, 'm, 's) extractor \<Rightarrow> error option \<times> ('a, 'm, 's) extractor" where
  "load_pytorch_finish L m ex =
     (let ex1 = ex\<lparr> embedding_dim := hidden_size L m \<rparr>;
          m1 = (if use_fp16 ex1 then module_half L m else m);
          ex2 = ex1\<lparr> u_model := Some m1 \<rparr>
      in case AutoImageProcessor_from_pretrained L (model_name ex2) of
           Inl e \<Rightarrow> (Some e, ex2)
         | Inr p \<Rightarrow>
             (let ex3 = ex2\<lparr> u_processor := Some p \<rparr>
              in if has_torch_compile L \<and> device ex3 = ''cuda''
                 then (case torch_compile L m1 of
                         Inl e \<Rightarrow> (None, ex3)
                       | Inr m2 \<Rightarrow> (None, ex3\<lparr> u_model := Some m2 \<rparr>))
                 else (None, ex3)))"

definition load_pytorch ::
  "('i, 'a, 'm, 'd, 's, 'f) libs \<Rightarrow> ('a, 'm, 's) extractor \<Rightarrow> error option \<times> ('a, 'm, 's) extractor" where
  "load_pytorch L ex =
     (let dev = torch_device L (device ex);
          ex1 = ex\<lparr> u_device := Some dev \<rparr>
      in case AutoModel_from_pretrained L (model_name ex1) of
           Inl e \<Rightarrow> (Some e, ex1)
         | Inr m0 \<Rightarrow>
             (let m = module_to L m0 dev;
                  ex2 = ex1\<lparr> u_model := Some m \<rparr>
              in if truthy (checkpoint_path ex2) \<and> path_exists L (the (checkpoint_path ex2))
                 then (case torch_load L (the (checkpoint_path ex2)) dev of
                         Inl e \<Rightarrow> (Some e, ex2)
                       | Inr ck \<Rightarrow>
                           (case model_state_dict ck of
                              None \<Rightarrow>
                                load_pytorch_finish L m
                                  (ex2\<lparr> model_version :=
                                          (case version ck of Some v \<Rightarrow> v | None \<Rightarrow> ''checkpoint'') \<rparr>)
                            | Some sd \<Rightarrow>
                                (case load_state_dict L m sd of
                                   Inl e \<Rightarrow> (Some e, ex2)
                                 | Inr m' \<Rightarrow>
                                     load_pytorch_finish L m'
                                       (ex2\<lparr> u_model := Some m',
                                              model_version :=
                                                (case version ck of
                                                   Some v \<Rightarrow> v | None \<Rightarrow> ''checkpoint'') \<rparr>))))
                 else load_pytorch_finish L m (ex2\<lparr> model_version := ''pretrained'' \<rparr>)))"

text \<open>\<^verbatim>\<open>_load_sync\<close>: ONNX is preferred when \<^verbatim>\<open>self.onnx_path\<close> is truthy and the path
  exists; \<^verbatim>\<open>_is_loaded\<close> is set only when the chosen loader returns.\<close>

datatype backend = ONNX | PyTorch

definition select_backend ::
  "('i, 'a, 'm, 'd, 's, 'f) libs \<Rightarrow> ('a, 'm, 's) extractor \<Rightarrow> backend" where
  "select_backend L ex =
     (if truthy (onnx_path ex) \<and> path_exists L (the (onnx_path ex)) then ONNX else PyTorch)"

definition load_sync ::
  "('i, 'a, 'm, 'd, 's, 'f) libs \<Rightarrow> ('a, 'm, 's) extractor \<Rightarrow> error option \<times> ('a, 'm, 's) extractor" where
  "load_sync L ex =
     (case (if truthy (onnx_path ex) \<and> path_exists L (the (onnx_path ex))
            then load_onnx L ex else load_pytorch L ex) of
        (Some e, ex') \<Rightarrow> (Some e, ex')
      | (None, ex') \<Rightarrow> (None, ex'\<lparr> u_is_loaded := True \<rparr>))"

text \<open>\<^verbatim>\<open>get_model_info()["backend"]\<close> and the test \<^verbatim>\<open>self._ort_session is not None\<close>
  that \<^verbatim>\<open>_extract_features_sync\<close> and \<^verbatim>\<open>warmup\<close> dispatch on.\<close>

definition active_backend :: "('a, 'm, 's) extractor \<Rightarrow> backend" where
  "active_backend ex = (if u_ort_session ex \<noteq> None then ONNX else PyTorch)"

subsection \<open>Preprocessing\<close>

text \<open>What a caller may pass as \<^verbatim>\<open>image\<close>: the docstrings name a PIL image, a numpy array
  and bytes.\<close>

datatype ('i, 'a) image = PILImage 'i | NdArray 'a | Bytes "nat list"

text \<open>The first two statements of \<^verbatim>\<open>preprocess\<close>: \<^verbatim>\<open>Image.fromarray\<close> for an array, then
  \<^verbatim>\<open>image.convert('RGB')\<close>. Bytes are not an array and have no method \<^verbatim>\<open>convert\<close>.\<close>

definition convert_rgb :: "('i, 'a, 'm, 'd, 's, 'f) libs \<Rightarrow> ('i, 'a) image \<Rightarrow> error + 'i" where
  "convert_rgb L img =
     (case img of
        NdArray arr \<Rightarrow>
          (case Image_fromarray L arr of
             Inl e \<Rightarrow> Inl e
           | Inr im \<Rightarrow> Image_convert L im ''RGB'')
      | PILImage im \<Rightarrow> Image_convert L im ''RGB''
      | Bytes bs \<Rightarrow> Inl (AttributeError ''bytes object has no attribute convert''))"

definition preprocess ::
  "('i, 'a, 'm, 'd, 's, 'f) libs \<Rightarrow> ('a, 'm, 's) extractor \<Rightarrow> ('i, 'a) image \<Rightarrow> error + 'a" where
  "preprocess L ex img =
     (case convert_rgb L img of
        Inl e \<Rightarrow> Inl e
      | Inr rgb \<Rightarrow>
          (case Image_resize L rgb (image_size ex, image_size ex) of
             Inl e \<Rightarrow> Inl e
           | Inr resized \<Rightarrow>
               (let img_array = np_div_255 L (np_array_float32 L resized);
                    img_array = np_div L (np_sub L img_array (u_mean ex)) (u_std ex);
                    img_array = np_transpose L img_array [2, 0, 1];
                    img_array = np_expand_dims L img_array 0
                in Inr (np_astype_float32 L img_array))))"

subsection \<open>Inference\<close>

text \<open>\<^verbatim>\<open>InferenceResult\<close>. The three latency fields are wall-clock differences (Python
  floats read from \<^verbatim>\<open>time.time()\<close>) and are not part of the record here.\<close>

record 'a InferenceResult =
  embedding :: "'a"
  dimension :: int
  res_model_name :: string
  res_model_version :: string
  attention_maps :: "'a list option"
  patch_features :: "'a option"

definition inference_onnx ::
  "('i, 'a, 'm, 'd, 's, 'f) libs \<Rightarrow> ('a, 'm, 's) extractor \<Rightarrow> 'a \<Rightarrow> error + 'a" where
  "inference_onnx L ex input_tensor =
     (case u_ort_session ex of
        None \<Rightarrow> Inl (AttributeError ''NoneType object has no attribute run'')
      | Some s \<Rightarrow>
          (case session_run L s input_tensor of
             Inl e \<Rightarrow> Inl e
           | Inr [] \<Rightarrow> Inl (IndexError ''list index out of range'')
           | Inr (out # _) \<Rightarrow> Inr (batch0 L out)))"

definition inference_pytorch ::
  "('i, 'a, 'm, 'd, 's, 'f) libs \<Rightarrow> ('a, 'm, 's) extractor \<Rightarrow> 'a \<Rightarrow> bool \<Rightarrow> bool
     \<Rightarrow> error + ('a \<times> 'a list option \<times> 'a option)" where
  "inference_pytorch L ex input_tensor return_attention return_patches =
     (case u_device ex of
        None \<Rightarrow> Inl (AttributeError ''object has no attribute _device'')
      | Some dev \<Rightarrow>
          (case u_model ex of
             None \<Rightarrow> Inl (TypeError ''NoneType object is not callable'')
           | Some m \<Rightarrow>
               (case module_call L m input_tensor (use_fp16 ex) return_attention of
                  Inl e \<Rightarrow> Inl e
                | Inr outputs \<Rightarrow>
                    Inr (cls_token L (last_hidden_state outputs),
                         (case attentions outputs of
                            None \<Rightarrow> None
                          | Some atts \<Rightarrow>
                              if return_attention \<and> atts \<noteq> []
                              then Some (map (attention_of_batch0 L) atts) else None),
                         (if return_patches
                          then Some (patch_tokens L (last_hidden_state outputs)) else None)))))"

text \<open>Which phases of a request ran, in order.\<close>

datatype phase = Preprocessing | Inference

definition extract_features_sync ::
  "('i, 'a, 'm, 'd, 's, 'f) libs \<Rightarrow> ('a, 'm, 's) extractor \<Rightarrow> ('i, 'a) image \<Rightarrow> bool \<Rightarrow> bool
     \<Rightarrow> (error + 'a InferenceResult) \<times> phase list" where
  "extract_features_sync L ex img return_attention return_patches =
     (case preprocess L ex img of
        Inl e \<Rightarrow> (Inl e, [Preprocessing])
      | Inr input_tensor \<Rightarrow>
          (case (if u_ort_session ex \<noteq> None
                 then (case inference_onnx L ex input_tensor of
                         Inl e \<Rightarrow> Inl e
                       | Inr emb \<Rightarrow> Inr (emb, None, None))
                 else inference_pytorch L ex input_tensor return_attention return_patches) of
             Inl e \<Rightarrow> (Inl e, [Preprocessing, Inference])
           | Inr (emb, atts, patches) \<Rightarrow>
               (Inr \<lparr> embedding = emb,
                      dimension = embedding_dim ex,
                      res_model_name = model_name ex,
                      res_model_version = model_version ex,
                      attention_maps = (if return_attention then atts else None),
                      patch_features = (if return_patches then patches else None) \<rparr>,
                [Preprocessing, Inference])))"

definition extract_features ::
  "('i, 'a, 'm, 'd, 's, 'f) libs \<Rightarrow> ('a, 'm, 's) extractor \<Rightarrow> ('i, 'a) image \<Rightarrow> bool \<Rightarrow> bool
     \<Rightarrow> (error + 'a InferenceResult) \<times> phase list" where
  "extract_features L ex img return_attention return_patches =
     (if \<not> u_is_loaded ex
      then (Inl (RuntimeError ''Model not loaded. Call load() first.''), [])
      else extract_features_sync L ex img return_attention return_patches)"

subsection \<open>Batches\<close>








subsection \<open>Warmup\<close>

text \<open>One iteration's forward pass: the result is thrown away, an exception is not.\<close>

definition forward_pass ::
  "('i, 'a, 'm, 'd, 's, 'f) libs \<Rightarrow> ('a, 'm, 's) extractor \<Rightarrow> 'a \<Rightarrow> error option" where
  "forward_pass L ex dummy_input =
     (if u_ort_session ex \<noteq> None
      then (case inference_onnx L ex dummy_input of Inl e \<Rightarrow> Some e | Inr _ \<Rightarrow> None)
      else (case inference_pytorch L ex dummy_input False False of
              Inl e \<Rightarrow> Some e | Inr _ \<Rightarrow> None))"

text \<open>The loop \<^verbatim>\<open>for i in range(iterations)\<close>: the latencies collected, and how many
  forward passes were started.\<close>

fun warmup_loop ::
  "('i, 'a, 'm, 'd, 's, 'f) libs \<Rightarrow> ('a, 'm, 's) extractor \<Rightarrow> 'a \<Rightarrow> nat list \<Rightarrow> 'f list
     \<Rightarrow> (error + 'f list) \<times> nat" where
  "warmup_loop L ex dummy_input [] latencies = (Inr latencies, 0)"
| "warmup_loop L ex dummy_input (i # rest) latencies =
     (case forward_pass L ex dummy_input of
        Some e \<Rightarrow> (Inl e, 1)
      | None \<Rightarrow>
          (case warmup_loop L ex dummy_input rest (latencies @ [measured_latency_ms L i]) of
             (r, n) \<Rightarrow> (r, Suc n)))"

text \<open>A value of the returned dict: the literal \<^verbatim>\<open>0\<close> of the source is a Python int, a
  statistic of a non-empty list a float.\<close>

datatype 'f pyval = PyInt int | PyFloat 'f

definition warmup_stats ::
  "('i, 'a, 'm, 'd, 's, 'f) libs \<Rightarrow> 'f list \<Rightarrow> (string \<times> 'f pyval) list" where
  "warmup_stats L latencies =
     [(''first_inference_ms'', (case latencies of [] \<Rightarrow> PyInt 0 | l # _ \<Rightarrow> PyFloat l)),
      (''avg_inference_ms'', (if latencies \<noteq> [] then PyFloat (np_mean L latencies) else PyInt 0)),
      (''min_inference_ms'', (if latencies \<noteq> [] then PyFloat (np_min L latencies) else PyInt 0)),
      (''max_inference_ms'', (if latencies \<noteq> [] then PyFloat (np_max L latencies) else PyInt 0))]"

text \<open>\<^verbatim>\<open>warmup\<close>. \<^verbatim>\<open>np.random.rand\<close> raises on a negative dimension; \<^verbatim>\<open>range\<close> of a
  number that is not positive is empty.\<close>

definition warmup ::
  "('i, 'a, 'm, 'd, 's, 'f) libs \<Rightarrow> ('a, 'm, 's) extractor \<Rightarrow> int
     \<Rightarrow> (error + (string \<times> 'f pyval) list) \<times> nat" where
  "warmup L ex iterations =
     (if image_size ex < 0 then (Inl (ValueError ''negative dimensions are not allowed''), 0)
      else
        (let dummy_input =
               np_astype_float32 L (np_random_rand L [1, 3, image_size ex, image_size ex])
         in case warmup_loop L ex dummy_input [0 ..< nat iterations] [] of
              (Inl e, n) \<Rightarrow> (Inl e, n)
            | (Inr latencies, n) \<Rightarrow> (Inr (warmup_stats L latencies), n)))"

subsection \<open>Status, and the calls a client can make\<close>

datatype info_value = Str string | Int_v int | Bool_v bool

definition get_model_info :: "('a, 'm, 's) extractor \<Rightarrow> (string \<times> info_value) list" where
  "get_model_info ex =
     [(''model_id'', Str ''dinov2''),
      (''model_name'', Str (model_name ex)),
      (''version'', Str (model_version ex)),
      (''device'', Str (device ex)),
      (''embedding_dim'', Int_v (embedding_dim ex)),
      (''image_size'', Int_v (image_size ex)),
      (''use_fp16'', Bool_v (use_fp16 ex)),
      (''backend'', Str (if u_ort_session ex \<noteq> None then ''onnx'' else ''pytorch'')),
      (''is_loaded'', Bool_v (u_is_loaded ex))]"

text \<open>The public methods. Only \<^verbatim>\<open>load\<close> assigns to an attribute of the object; every
  other method reads it.\<close>

datatype ('i, 'a) call =
    Load
  | Preprocess "('i, 'a) image"
  | ExtractFeatures "('i, 'a) image" bool bool
  | ExtractFeaturesBatch "('i, 'a) image list" int
  | Warmup int
  | GetModelInfo

fun after_call ::
  "('i, 'a, 'm, 'd, 's, 'f) libs \<Rightarrow> ('a, 'm, 's) extractor \<Rightarrow> ('i, 'a) call \<Rightarrow> ('a, 'm, 's) extractor" where
  "after_call L ex Load = snd (load_sync L ex)"
| "after_call L ex _ = ex"

definition after_calls ::
  "('i, 'a, 'm, 'd, 's, 'f) libs \<Rightarrow> ('a, 'm, 's) extractor \<Rightarrow> ('i, 'a) call list \<Rightarrow> ('a, 'm, 's) extractor" where
  "after_calls L ex cs = foldl (after_call L) ex cs"

subsection \<open>The service: application state, model loading, health handlers\<close>

text \<open>A Python dict keeps insertion order: an association list, where assigning to a key
  that is present replaces its value in place.\<close>

fun dict_set :: "'k \<Rightarrow> 'v \<Rightarrow> ('k \<times> 'v) list \<Rightarrow> ('k \<times> 'v) list" where
  "dict_set k v [] = [(k, v)]"
| "dict_set k v ((k', v') # kvs) =
     (if k = k' then (k, v) # kvs else (k', v') # dict_set k v kvs)"

definition dict_get :: "('k \<times> 'v) list \<Rightarrow> 'k \<Rightarrow> 'v \<Rightarrow> 'v" where
  "dict_get d k dflt = (case map_of d k of None \<Rightarrow> dflt | Some v \<Rightarrow> v)"

text \<open>\<^verbatim>\<open>AppState\<close>: the readiness flag, the registry \<^verbatim>\<open>loaded_models\<close> (model key to a
  dict of strings) and the shutdown event. The start time and the gRPC server handle play
  no part in readiness.\<close>

record AppState =
  models_loaded :: bool
  loaded_models :: "(string \<times> (string \<times> string) list) list"
  shutdown_event :: bool

definition app_state :: AppState where
  "app_state = \<lparr> models_loaded = False, loaded_models = [], shutdown_event = False \<rparr>"

text \<open>A call the service makes on an extractor of the model with the given key.\<close>

datatype backend_call = BackendLoad string | BackendWarmup string

text \<open>\<^verbatim>\<open>load_models\<close>. Its body registers the entry \<^verbatim>\<open>"dinov2"\<close> with state
  \<^verbatim>\<open>"ready"\<close> and sets the flag; it builds no \<^verbatim>\<open>DINOv2Inference\<close> and calls neither
  \<^verbatim>\<open>load()\<close> nor \<^verbatim>\<open>warmup()\<close>, so the list of backend calls it returns is empty. The argument
  is \<^verbatim>\<open>config.model.device\<close>.\<close>

definition load_models :: "string \<Rightarrow> AppState \<Rightarrow> backend_call list \<times> AppState" where
  "load_models config_device st =
     ([], st\<lparr> loaded_models :=
                 dict_set ''dinov2''
                   [(''model_id'', ''dinov2-base''),
                    (''model_name'', ''facebook/dinov2-base''),
                    (''state'', ''ready''),
                    (''device'', config_device)]
                   (loaded_models st),
              models_loaded := True \<rparr>)"

definition unload_models :: "AppState \<Rightarrow> AppState" where
  "unload_models st = st\<lparr> loaded_models := [], models_loaded := False \<rparr>"

text \<open>The two halves of \<^verbatim>\<open>lifespan\<close>, around the \<^verbatim>\<open>yield\<close>.\<close>

datatype event = Startup string | Shutdown

fun lifespan :: "backend_call list \<times> AppState \<Rightarrow> event \<Rightarrow> backend_call list \<times> AppState" where
  "lifespan (calls, st) (Startup config_device) =
     (case load_models config_device st of (cs, st') \<Rightarrow> (calls @ cs, st'))"
| "lifespan (calls, st) Shutdown = (calls, unload_models (st\<lparr> shutdown_event := True \<rparr>))"

definition run_service :: "event list \<Rightarrow> backend_call list \<times> AppState" where
  "run_service evs = foldl lifespan ([], app_state) evs"

text \<open>What a handler gives the HTTP layer: a body it returns (status 200), or an
  \<^verbatim>\<open>HTTPException\<close> with its status code.\<close>

datatype 'b http = Returned 'b | HTTPException nat string

fun status_code :: "'b http \<Rightarrow> nat" where
  "status_code (Returned b) = 200"
| "status_code (HTTPException code detail) = code"

record ModelStatusResponse =
  ms_model_id :: string
  ms_model_name :: string
  ms_state :: string
  ms_ready :: bool
  ms_device :: "string option"

record ModelsReadyResponse =
  ready :: bool
  models :: "ModelStatusResponse list"

definition model_status :: "(string \<times> string) list \<Rightarrow> ModelStatusResponse" where
  "model_status info =
     \<lparr> ms_model_id = dict_get info ''model_id'' ''unknown'',
       ms_model_name = dict_get info ''model_name'' ''unknown'',
       ms_state = dict_get info ''state'' ''unknown'',
       ms_ready = (map_of info ''state'' = Some ''ready''),
       ms_device = map_of info ''device'' \<rparr>"

definition readiness_check :: "AppState \<Rightarrow> ModelsReadyResponse http" where
  "readiness_check st =
     Returned \<lparr> ready = models_loaded st,
                models = map (\<lambda>(k, info). model_status info) (loaded_models st) \<rparr>"

definition startup_check :: "AppState \<Rightarrow> string http" where
  "startup_check st =
     (if \<not> models_loaded st then HTTPException 503 ''Models still loading''
      else Returned ''started'')"

subsection \<open>A concrete environment\<close>

text \<open>An environment in which every opaque value is a number, to run the definitions on
  examples: the only file on disk is \<^verbatim>\<open>model.onnx\<close>, the only model the hub knows is
  \<^verbatim>\<open>facebook/dinov2-base\<close>, and the image \<open>0\<close> and the array \<open>0\<close> cannot be decoded.\<close>

definition sample_libs :: "(nat, nat, nat, nat, nat, nat) libs" where
  "sample_libs =
     \<lparr> path_exists = (\<lambda>p. p = ''model.onnx''),
       np_array = (\<lambda>lits. 0),
       Image_fromarray = (\<lambda>arr. if arr = 0 then Inl (LibraryError ''Cannot handle this data type'') else Inr arr),
       Image_convert = (\<lambda>im mode. if im = 0 then Inl (LibraryError ''image file is truncated'') else Inr im),
       Image_resize = (\<lambda>im sz. Inr im),
       np_array_float32 = (\<lambda>im. im),
       np_div_255 = (\<lambda>arr. arr),
       np_sub = (\<lambda>arr m. arr),
       np_div = (\<lambda>arr s. arr),
       np_transpose = (\<lambda>arr axes. arr),
       np_expand_dims = (\<lambda>arr axis. arr),
       np_astype_float32 = (\<lambda>arr. arr),
       np_random_rand = (\<lambda>shape. 1),
       np_mean = (\<lambda>ls. sum_list ls div length ls),
       np_min = (\<lambda>ls. fold min ls (hd ls)),
       np_max = (\<lambda>ls. fold max ls 0),
       measured_latency_ms = (\<lambda>i. 5),
       cuda_is_available = False,
       mps_is_available = False,
       AutoModel_from_pretrained =
         (\<lambda>name. if name = ''facebook/dinov2-base'' then Inr 7
                 else Inl (LibraryError ''not a valid model identifier'')),
       module_to = (\<lambda>m dev. m),
       module_half = (\<lambda>m. m),
       torch_load = (\<lambda>path dev. Inr \<lparr> model_state_dict = None, version = None \<rparr>),
       load_state_dict = (\<lambda>m sd. Inr m),
       hidden_size = (\<lambda>m. 768),
       AutoImageProcessor_from_pretrained = (\<lambda>name. Inr ()),
       has_torch_compile = False,
       torch_compile = (\<lambda>m. Inr m),
       module_call =
         (\<lambda>m t fp16 output_attentions.
            Inr \<lparr> last_hidden_state = t,
                  attentions = (if output_attentions then Some [t, t] else None) \<rparr>),
       cls_token = (\<lambda>h. h),
       patch_tokens = (\<lambda>h. h),
       attention_of_batch0 = (\<lambda>att. att),
       get_available_providers = [''CPUExecutionProvider''],
       InferenceSession = (\<lambda>path providers. Inr 3),
       session_output_dim = (\<lambda>s. Some 768),
       session_run = (\<lambda>s t. Inr [t]),
       batch0 = (\<lambda>out. out) \<rparr>"

definition sample_onnx :: "(nat, nat, nat) extractor" where
  "sample_onnx =
     init sample_libs ''facebook/dinov2-base'' None (Some ''model.onnx'') ''cpu'' True 224"

definition sample_torch :: "(nat, nat, nat) extractor" where
  "sample_torch = init sample_libs ''facebook/dinov2-base'' None None ''cpu'' True 224"

definition sample_missing :: "(nat, nat, nat) extractor" where
  "sample_missing = init sample_libs ''no/such-model'' None None ''cpu'' True 224"

definition sample_onnx_loaded :: "(nat, nat, nat) extractor" where
  "sample_onnx_loaded = snd (load_sync sample_libs sample_onnx)"




section \<open>Properties\<close>

subsection \<open>What the loaders leave alone\<close>

lemma load_onnx_fields:
  "load_onnx L ex = (r, ex') \<Longrightarrow>
     onnx_path ex' = onnx_path ex \<and> u_is_loaded ex' = u_is_loaded ex
     \<and> (r = None \<longrightarrow> u_ort_session ex' \<noteq> None) \<and> (r \<noteq> None \<longrightarrow> ex' = ex)"
  by (auto simp: load_onnx_def split: option.splits sum.splits)

lemma load_pytorch_finish_fields:
  "load_pytorch_finish L m ex = (r, ex') \<Longrightarrow>
     onnx_path ex' = onnx_path ex \<and> u_is_loaded ex' = u_is_loaded ex
     \<and> u_ort_session ex' = u_ort_session ex"
  by (auto simp: load_pytorch_finish_def Let_def split: sum.splits if_splits)

lemma load_pytorch_fields:
  "load_pytorch L ex = (r, ex') \<Longrightarrow>
     onnx_path ex' = onnx_path ex \<and> u_is_loaded ex' = u_is_loaded ex
     \<and> u_ort_session ex' = u_ort_session ex"
  unfolding load_pytorch_def Let_def
  by (auto split: sum.splits option.splits if_splits dest!: load_pytorch_finish_fields)

lemma load_sync_failure_keeps_is_loaded:
  "load_sync L ex = (Some e, ex') \<Longrightarrow> u_is_loaded ex' = u_is_loaded ex"
  unfolding load_sync_def
  by (auto split: if_splits prod.splits option.splits
           dest: load_onnx_fields load_pytorch_fields)

lemma sample_missing_load:
  "load_sync sample_libs sample_missing =
     (Some (LibraryError ''not a valid model identifier''),
      sample_missing\<lparr> u_device := Some ''cpu'' \<rparr>)"
  by code_simp

subsection \<open>Use before load\<close>

text \<open>
  C4. A new extractor is not loaded, a \<^verbatim>\<open>load()\<close> that raises leaves it not loaded, and
  \<^verbatim>\<open>extract_features\<close> on an extractor that is not loaded raises
  \<^verbatim>\<open>RuntimeError("Model not loaded. Call load() first.")\<close> (the failure the specification
  calls NotLoadedError) before any phase runs: neither preprocessing nor inference is
  performed, whatever the image and the flags.
\<close>

theorem extract_features_before_load:
  "\<not> u_is_loaded (init L name ckpt onnx dev fp16 isz)
   \<and> (\<not> u_is_loaded ex \<and> fst (load_sync L ex) \<noteq> None \<longrightarrow> \<not> u_is_loaded (snd (load_sync L ex)))
   \<and> (\<not> u_is_loaded ex \<longrightarrow>
        extract_features L ex img return_attention return_patches =
          (Inl (RuntimeError ''Model not loaded. Call load() first.''), []))"
proof (intro conjI impI)
  show "\<not> u_is_loaded (init L name ckpt onnx dev fp16 isz)" by (simp add: init_def)
next
  assume a: "\<not> u_is_loaded ex \<and> fst (load_sync L ex) \<noteq> None"
  then obtain e ex' where "load_sync L ex = (Some e, ex')"
    by (cases "load_sync L ex") auto
  with a show "\<not> u_is_loaded (snd (load_sync L ex))"
    using load_sync_failure_keeps_is_loaded by fastforce
next
  assume "\<not> u_is_loaded ex"
  then show "extract_features L ex img return_attention return_patches =
          (Inl (RuntimeError ''Model not loaded. Call load() first.''), [])"
    by (simp add: extract_features_def)
qed

theorem extract_features_before_load_witness:
  "\<not> u_is_loaded sample_missing
   \<and> fst (load_sync sample_libs sample_missing) \<noteq> None
   \<and> \<not> u_is_loaded (snd (load_sync sample_libs sample_missing))
   \<and> extract_features sample_libs (snd (load_sync sample_libs sample_missing)) (PILImage 5) True True =
        (Inl (RuntimeError ''Model not loaded. Call load() first.''), [])
   \<and> extract_features sample_libs sample_missing (PILImage 5) False False =
        (Inl (RuntimeError ''Model not loaded. Call load() first.''), [])"
proof -
  have h1: "\<not> u_is_loaded sample_missing" by (simp add: sample_missing_def init_def)
  have h2: "fst (load_sync sample_libs sample_missing) \<noteq> None" by (simp add: sample_missing_load)
  have h3: "\<not> u_is_loaded (snd (load_sync sample_libs sample_missing))"
    using extract_features_before_load[of sample_libs "''x''" None None "''cpu''" False 1
        sample_missing "PILImage 5" False False] h1 h2 by blast
  show ?thesis
    using h1 h2 h3
      extract_features_before_load[of sample_libs "''x''" None None "''cpu''" False 1
        sample_missing "PILImage 5" False False]
      extract_features_before_load[of sample_libs "''x''" None None "''cpu''" False 1
        "snd (load_sync sample_libs sample_missing)" "PILImage 5" True True]
    by blast
qed

subsection \<open>Attention maps on the ONNX backend\<close>

text \<open>
  C3. When the ONNX session is the active backend (\<^verbatim>\<open>self._ort_session is not None\<close>),
  every result that \<^verbatim>\<open>_extract_features_sync\<close> or \<^verbatim>\<open>extract_features\<close> returns has
  \<^verbatim>\<open>attention_maps = None\<close>, for every image and every value of \<^verbatim>\<open>return_attention\<close> and
  \<^verbatim>\<open>return_patches\<close>.
\<close>

theorem onnx_attention_maps_none:
  "active_backend ex = ONNX \<Longrightarrow>
   (fst (extract_features_sync L ex img return_attention return_patches) = Inr r
      \<longrightarrow> attention_maps r = None)
   \<and> (fst (extract_features L ex img return_attention return_patches) = Inr r
      \<longrightarrow> attention_maps r = None)"
  by (auto simp: active_backend_def extract_features_def extract_features_sync_def
           split: if_splits sum.splits prod.splits)

theorem onnx_attention_maps_none_witness:
  "active_backend sample_onnx_loaded = ONNX
   \<and> fst (extract_features sample_libs sample_onnx_loaded (PILImage 5) True True) =
       Inr \<lparr> embedding = 5, dimension = 768, res_model_name = ''facebook/dinov2-base'',
             res_model_version = ''onnx'', attention_maps = None, patch_features = None \<rparr>
   \<and> attention_maps \<lparr> embedding = 5, dimension = 768,
         res_model_name = ''facebook/dinov2-base'', res_model_version = ''onnx'',
         attention_maps = (None :: nat list option), patch_features = (None :: nat option) \<rparr> = None"
proof -
  have h1: "active_backend sample_onnx_loaded = ONNX" by code_simp
  have h2: "fst (extract_features sample_libs sample_onnx_loaded (PILImage 5) True True) =
       Inr \<lparr> embedding = 5, dimension = 768, res_model_name = ''facebook/dinov2-base'',
             res_model_version = ''onnx'', attention_maps = None, patch_features = None \<rparr>"
    by code_simp
  show ?thesis
    using h1 h2 onnx_attention_maps_none[OF h1, of sample_libs "PILImage 5" True True] by blast
qed

subsection \<open>Batches keep the order of the images\<close>















subsection \<open>The backend is chosen by \<^verbatim>\<open>load\<close>, and only there\<close>

lemma load_sync_fields:
  assumes "load_sync L ex = (r, ex')"
  shows "onnx_path ex' = onnx_path ex
     \<and> (u_ort_session ex \<noteq> None \<longrightarrow> u_ort_session ex' \<noteq> None)
     \<and> (u_ort_session ex' \<noteq> None \<longrightarrow> u_ort_session ex \<noteq> None \<or> select_backend L ex = ONNX)
     \<and> (u_is_loaded ex' \<longrightarrow> u_is_loaded ex \<or>
           (select_backend L ex = ONNX \<longrightarrow> u_ort_session ex' \<noteq> None))"
proof (cases "truthy (onnx_path ex) \<and> path_exists L (the (onnx_path ex))")
  case True
  obtain r0 ex1 where l: "load_onnx L ex = (r0, ex1)" by (cases "load_onnx L ex")
  note f = load_onnx_fields[OF l]
  have sel: "select_backend L ex = ONNX" using True by (simp add: select_backend_def)
  have "ex' = (if r0 = None then ex1\<lparr> u_is_loaded := True \<rparr> else ex1)"
    using assms True l by (auto simp: load_sync_def split: option.splits)
  then show ?thesis using f sel by (cases r0) auto
next
  case False
  obtain r0 ex1 where l: "load_pytorch L ex = (r0, ex1)" by (cases "load_pytorch L ex")
  note f = load_pytorch_fields[OF l]
  have sel: "select_backend L ex \<noteq> ONNX" using False by (simp add: select_backend_def)
  have "ex' = (if r0 = None then ex1\<lparr> u_is_loaded := True \<rparr> else ex1)"
    using assms False l by (auto simp: load_sync_def split: option.splits)
  then show ?thesis using f sel by (cases r0) auto
qed

lemma select_backend_onnx_path:
  "onnx_path ex' = onnx_path ex \<Longrightarrow> select_backend L ex' = select_backend L ex"
  by (simp add: select_backend_def)

lemma after_call_invariant:
  assumes "onnx_path ex = onnx_path ex0"
    and "u_ort_session ex \<noteq> None \<longrightarrow> select_backend L ex0 = ONNX"
    and "u_is_loaded ex \<longrightarrow> select_backend L ex0 = ONNX \<longrightarrow> u_ort_session ex \<noteq> None"
  shows "onnx_path (after_call L ex c) = onnx_path ex0"
    and "u_ort_session (after_call L ex c) \<noteq> None \<longrightarrow> select_backend L ex0 = ONNX"
    and "u_is_loaded (after_call L ex c) \<longrightarrow> select_backend L ex0 = ONNX \<longrightarrow>
          u_ort_session (after_call L ex c) \<noteq> None"
proof -
  have "onnx_path (after_call L ex c) = onnx_path ex0
    \<and> (u_ort_session (after_call L ex c) \<noteq> None \<longrightarrow> select_backend L ex0 = ONNX)
    \<and> (u_is_loaded (after_call L ex c) \<longrightarrow> select_backend L ex0 = ONNX \<longrightarrow>
          u_ort_session (after_call L ex c) \<noteq> None)"
  proof (cases "c = Load")
    case True
    obtain r ex' where l: "load_sync L ex = (r, ex')" by (cases "load_sync L ex")
    have s: "select_backend L ex = select_backend L ex0"
      using assms(1) by (rule select_backend_onnx_path)
    note f = load_sync_fields[OF l]
    have e: "after_call L ex c = ex'" using True l by simp
    have 1: "onnx_path ex' = onnx_path ex0" using f assms(1) by simp
    have 2: "u_ort_session ex' \<noteq> None \<longrightarrow> select_backend L ex0 = ONNX"
      using f assms(2) s by metis
    have 3: "u_is_loaded ex' \<longrightarrow> select_backend L ex0 = ONNX \<longrightarrow> u_ort_session ex' \<noteq> None"
      using f assms(3) s by metis
    show ?thesis unfolding e using 1 2 3 by blast
  next
    case False
    then have "after_call L ex c = ex" by (cases c) simp_all
    then show ?thesis using assms by simp
  qed
  then show "onnx_path (after_call L ex c) = onnx_path ex0"
    and "u_ort_session (after_call L ex c) \<noteq> None \<longrightarrow> select_backend L ex0 = ONNX"
    and "u_is_loaded (after_call L ex c) \<longrightarrow> select_backend L ex0 = ONNX \<longrightarrow>
          u_ort_session (after_call L ex c) \<noteq> None"
    by blast+
qed

lemma after_calls_invariant:
  "onnx_path ex = onnx_path ex0 \<Longrightarrow>
   (u_ort_session ex \<noteq> None \<longrightarrow> select_backend L ex0 = ONNX) \<Longrightarrow>
   (u_is_loaded ex \<longrightarrow> select_backend L ex0 = ONNX \<longrightarrow> u_ort_session ex \<noteq> None) \<Longrightarrow>
   onnx_path (after_calls L ex cs) = onnx_path ex0
    \<and> (u_ort_session (after_calls L ex cs) \<noteq> None \<longrightarrow> select_backend L ex0 = ONNX)
    \<and> (u_is_loaded (after_calls L ex cs) \<longrightarrow> select_backend L ex0 = ONNX \<longrightarrow>
          u_ort_session (after_calls L ex cs) \<noteq> None)"
proof (induction cs arbitrary: ex)
  case Nil
  then show ?case by (simp add: after_calls_def)
next
  case (Cons c cs)
  have e: "after_calls L ex (c # cs) = after_calls L (after_call L ex c) cs"
    by (simp add: after_calls_def)
  show ?case
    unfolding e
    by (rule Cons.IH[OF after_call_invariant(1)[OF Cons.prems]
          after_call_invariant(2)[OF Cons.prems] after_call_invariant(3)[OF Cons.prems]])
qed

lemma after_calls_without_load: "Load \<notin> set cs \<Longrightarrow> after_calls L ex cs = ex"
proof (induction cs)
  case Nil
  then show ?case by (simp add: after_calls_def)
next
  case (Cons c cs)
  then have "after_call L ex c = ex" by (cases c) auto
  then show ?case using Cons by (simp add: after_calls_def)
qed

text \<open>
  C7. \<^verbatim>\<open>_load_sync\<close> takes the ONNX loader exactly when \<^verbatim>\<open>onnx_path\<close> is set to a
  non-empty path that exists on disk, and the PyTorch loader otherwise. On an extractor
  that starts without a session and not loaded, whatever methods are called afterwards
  (loads included, on the same file system), a loaded extractor runs the backend the rule
  selects; and a sequence of calls without \<^verbatim>\<open>load\<close> leaves the whole object, the backend
  with it, as it was.
\<close>

theorem backend_selected_at_load:
  "(select_backend L ex = ONNX \<longleftrightarrow>
      (\<exists>p. onnx_path ex = Some p \<and> p \<noteq> [] \<and> path_exists L p))
   \<and> (select_backend L ex \<noteq> ONNX \<longrightarrow> select_backend L ex = PyTorch)
   \<and> load_sync L ex =
       (case (if select_backend L ex = ONNX then load_onnx L ex else load_pytorch L ex) of
          (Some e, ex') \<Rightarrow> (Some e, ex')
        | (None, ex') \<Rightarrow> (None, ex'\<lparr> u_is_loaded := True \<rparr>))
   \<and> (u_ort_session ex = None \<and> \<not> u_is_loaded ex \<and> u_is_loaded (after_calls L ex cs) \<longrightarrow>
        active_backend (after_calls L ex cs) = select_backend L ex)
   \<and> (Load \<notin> set cs' \<longrightarrow> after_calls L ex cs' = ex)"
proof (intro conjI impI)
  show "select_backend L ex = ONNX \<longleftrightarrow>
      (\<exists>p. onnx_path ex = Some p \<and> p \<noteq> [] \<and> path_exists L p)"
    by (cases "onnx_path ex") (auto simp: select_backend_def)
  show "select_backend L ex = PyTorch" if "select_backend L ex \<noteq> ONNX"
    using that by (cases "select_backend L ex") auto
  show "load_sync L ex =
       (case (if select_backend L ex = ONNX then load_onnx L ex else load_pytorch L ex) of
          (Some e, ex') \<Rightarrow> (Some e, ex')
        | (None, ex') \<Rightarrow> (None, ex'\<lparr> u_is_loaded := True \<rparr>))"
    by (simp add: load_sync_def select_backend_def)
  show "after_calls L ex cs' = ex" if "Load \<notin> set cs'"
    using that by (rule after_calls_without_load)
  assume a: "u_ort_session ex = None \<and> \<not> u_is_loaded ex \<and> u_is_loaded (after_calls L ex cs)"
  have inv: "(u_ort_session (after_calls L ex cs) \<noteq> None \<longrightarrow> select_backend L ex = ONNX)
    \<and> (u_is_loaded (after_calls L ex cs) \<longrightarrow> select_backend L ex = ONNX \<longrightarrow>
          u_ort_session (after_calls L ex cs) \<noteq> None)"
  proof -
    have p1: "u_ort_session ex \<noteq> None \<longrightarrow> select_backend L ex = ONNX" using a by simp
    have p2: "u_is_loaded ex \<longrightarrow> select_backend L ex = ONNX \<longrightarrow> u_ort_session ex \<noteq> None"
      using a by simp
    show ?thesis using after_calls_invariant[OF refl p1 p2, of cs] by simp
  qed
  show "active_backend (after_calls L ex cs) = select_backend L ex"
  proof (cases "select_backend L ex")
    case ONNX
    then show ?thesis using inv a by (simp add: active_backend_def)
  next
    case PyTorch
    then show ?thesis using inv by (auto simp: active_backend_def)
  qed
qed

theorem backend_selected_at_load_witness:
  "select_backend sample_libs sample_onnx = ONNX
   \<and> onnx_path sample_onnx = Some ''model.onnx'' \<and> path_exists sample_libs ''model.onnx''
   \<and> select_backend sample_libs sample_torch = PyTorch
   \<and> u_ort_session sample_onnx = None \<and> \<not> u_is_loaded sample_onnx
   \<and> u_is_loaded (after_calls sample_libs sample_onnx
        [GetModelInfo, Load, Warmup 3, ExtractFeatures (PILImage 5) True False, Load])
   \<and> active_backend (after_calls sample_libs sample_onnx
        [GetModelInfo, Load, Warmup 3, ExtractFeatures (PILImage 5) True False, Load]) = ONNX
   \<and> after_calls sample_libs sample_onnx_loaded
        [Warmup 3, ExtractFeatures (PILImage 5) True False, Preprocess (NdArray 0)] = sample_onnx_loaded"
proof -
  have h1: "select_backend sample_libs sample_onnx = ONNX" by code_simp
  have h2: "select_backend sample_libs sample_torch \<noteq> ONNX" by code_simp
  have h3: "u_ort_session sample_onnx = None \<and> \<not> u_is_loaded sample_onnx
     \<and> u_is_loaded (after_calls sample_libs sample_onnx
        [GetModelInfo, Load, Warmup 3, ExtractFeatures (PILImage 5) True False, Load])"
    by code_simp
  have h4: "Load \<notin> set [Warmup 3, ExtractFeatures (PILImage 5) True False, Preprocess (NdArray (0::nat)) :: (nat, nat) call]"
    by simp
  have h5: "onnx_path sample_onnx = Some ''model.onnx'' \<and> path_exists sample_libs ''model.onnx''"
    by code_simp
  have a: "active_backend (after_calls sample_libs sample_onnx
        [GetModelInfo, Load, Warmup 3, ExtractFeatures (PILImage 5) True False, Load]) = ONNX"
    using h1 h3 backend_selected_at_load[of sample_libs sample_onnx
        "[GetModelInfo, Load, Warmup 3, ExtractFeatures (PILImage 5) True False, Load]" "[]"]
    by simp
  have b: "select_backend sample_libs sample_torch = PyTorch"
    using h2 backend_selected_at_load[of sample_libs sample_torch "[]" "[]"] by blast
  have c: "after_calls sample_libs sample_onnx_loaded
        [Warmup 3, ExtractFeatures (PILImage 5) True False, Preprocess (NdArray 0)] = sample_onnx_loaded"
    using h4 backend_selected_at_load[of sample_libs sample_onnx_loaded "[]"
        "[Warmup 3, ExtractFeatures (PILImage 5) True False, Preprocess (NdArray 0)]"]
    by blast
  show ?thesis using h1 h3 h5 a b c by simp
qed

subsection \<open>Preprocessing reads the configuration and nothing else\<close>

text \<open>
  C8. \<^verbatim>\<open>preprocess\<close> is a function of the image and of the configuration
  (\<^verbatim>\<open>image_size\<close>, \<^verbatim>\<open>_mean\<close>, \<^verbatim>\<open>_std\<close>) alone: two extractors that agree on these three
  give the same outcome on the same image, whatever their other attributes (loaded or not,
  backend, device), and the call leaves the extractor as it was. The PIL and numpy
  operations are taken as functions of their arguments.
\<close>

theorem preprocess_deterministic:
  "image_size ex1 = image_size ex2 \<Longrightarrow> u_mean ex1 = u_mean ex2 \<Longrightarrow> u_std ex1 = u_std ex2 \<Longrightarrow>
   preprocess L ex1 img = preprocess L ex2 img
   \<and> after_call L ex1 (Preprocess img) = ex1"
  by (auto simp: preprocess_def split: sum.splits)

theorem preprocess_deterministic_witness:
  "image_size sample_torch = image_size sample_onnx_loaded
   \<and> u_mean sample_torch = u_mean sample_onnx_loaded
   \<and> u_std sample_torch = u_std sample_onnx_loaded
   \<and> sample_torch \<noteq> sample_onnx_loaded
   \<and> preprocess sample_libs sample_torch (PILImage 5) = Inr 5
   \<and> preprocess sample_libs sample_onnx_loaded (PILImage 5) = Inr 5
   \<and> after_call sample_libs sample_torch (Preprocess (PILImage 5)) = sample_torch"
proof -
  have h1: "image_size sample_torch = image_size sample_onnx_loaded" by code_simp
  have h2: "u_mean sample_torch = u_mean sample_onnx_loaded" by code_simp
  have h3: "u_std sample_torch = u_std sample_onnx_loaded" by code_simp
  have d: "sample_torch \<noteq> sample_onnx_loaded" by code_simp
  have v: "preprocess sample_libs sample_torch (PILImage 5) = Inr 5" by code_simp
  show ?thesis
    using h1 h2 h3 d v preprocess_deterministic[OF h1 h2 h3, of sample_libs "PILImage 5"]
    by simp
qed

subsection \<open>An image that cannot be converted\<close>



subsection \<open>Warmup\<close>

lemma warmup_keys:
  "fst (warmup L ex iterations) = Inr stats \<Longrightarrow>
   map fst stats =
     [''first_inference_ms'', ''avg_inference_ms'', ''min_inference_ms'', ''max_inference_ms'']"
  by (auto simp: warmup_def warmup_stats_def Let_def split: if_splits prod.splits sum.splits)



subsection \<open>Readiness in the service\<close>

lemma load_models_no_backend_call:
  "fst (load_models config_device st) = []
   \<and> models_loaded (snd (load_models config_device st))
   \<and> map_of (loaded_models (snd (load_models config_device st))) ''dinov2'' =
       Some [(''model_id'', ''dinov2-base''), (''model_name'', ''facebook/dinov2-base''),
             (''state'', ''ready''), (''device'', config_device)]"
proof -
  have "map_of (dict_set k v d) k = Some v" for k :: string and v :: "(string \<times> string) list" and d
    by (induction d) auto
  then show ?thesis by (simp add: load_models_def)
qed

lemma readiness_check_always_200: "status_code (readiness_check st) = 200"
  by (simp add: readiness_check_def)


text \<open>
  C1, evaluated on the code. The startup half of \<^verbatim>\<open>lifespan\<close> on the initial state makes
  no call to a backend's \<^verbatim>\<open>load()\<close> or \<^verbatim>\<open>warmup()\<close>, yet it publishes the entry
  \<^verbatim>\<open>"dinov2"\<close> with state \<^verbatim>\<open>"ready"\<close> and sets \<^verbatim>\<open>models_loaded\<close>, and the readiness
  handler then reports the service and the model as ready.
\<close>

theorem load_models_ready_without_load:
  "run_service [Startup ''cuda''] =
     ([], \<lparr> models_loaded = True,
            loaded_models =
              [(''dinov2'', [(''model_id'', ''dinov2-base''),
                             (''model_name'', ''facebook/dinov2-base''),
                             (''state'', ''ready''), (''device'', ''cuda'')])],
            shutdown_event = False \<rparr>)
   \<and> readiness_check (snd (run_service [Startup ''cuda''])) =
       Returned \<lparr> ready = True,
                  models = [\<lparr> ms_model_id = ''dinov2-base'',
                              ms_model_name = ''facebook/dinov2-base'',
                              ms_state = ''ready'', ms_ready = True,
                              ms_device = Some ''cuda'' \<rparr>] \<rparr>"
  by code_simp

text \<open>
  C6, evaluated on the code. On the initial state (no model loaded) the readiness handler
  returns its body normally, which is status 200 with \<^verbatim>\<open>ready = False\<close> and an empty
  model list, whereas the startup handler raises \<^verbatim>\<open>HTTPException(503)\<close> on the same
  state.
\<close>

theorem readiness_check_not_ready_status:
  "readiness_check app_state = Returned \<lparr> ready = False, models = [] \<rparr>
   \<and> status_code (readiness_check app_state) = 200
   \<and> status_code (startup_check app_state) = 503"
  by code_simp

end
